theory Spec2Isabelle
  imports Main "HOL-Library.Word" "HOL-Library.AList" "HOL-Library.Multiset"
begin

section \<open>Data model of package config\<close>

text \<open>
  Go's \<open>int64\<close> is a 64-bit word, \<open>int32\<close> a 32-bit word, and \<open>int\<close> is taken at its
  64-bit size. The conversions \<open>int32(x)\<close> (keep the low 32 bits) and \<open>int(y)\<close>
  (sign extension) are \<open>ucast\<close> and \<open>scast\<close>.
\<close>

type_synonym int64 = "64 word"
type_synonym int32 = "32 word"
type_synonym goint = "64 word"

text \<open>
  A Go map is an association list with distinct keys holding the entries of the map.
  Lookup is \<open>map_of\<close> and the assignment \<open>m[k] = v\<close> is \<open>AList.update\<close>. A nil map and
  an empty map are both the empty list: the functions embedded here only range over
  maps, index them, and assign to maps they have made themselves. Map values are the
  structs themselves (pointers that are not nil).

  The order in which \<open>range\<close> visits a map is not specified by Go. Every function
  that ranges over a map takes the order as a parameter: a function that rearranges the
  entries, about which theorems assume only that it keeps the entries.
\<close>

type_synonym ('k, 'v) gomap = "('k \<times> 'v) list"

definition GlobalNamespace :: string where
  "GlobalNamespace = ''___GLOBAL___''"

definition DefaultBucketName :: string where
  "DefaultBucketName = ''___DEFAULT_BUCKET___''"

definition DynamicBucketTemplateName :: string where
  "DynamicBucketTemplateName = ''___DYNAMIC_BUCKET_TPL___''"

text \<open>
  \<open>BucketConfig.namespace\<close> is a pointer to the owning \<open>NamespaceConfig\<close>, read only by
  \<open>FQN\<close>, and only for the owner's \<open>Name\<close>. The embedding records the owner by that
  name; \<open>None\<close> is the nil pointer.
\<close>

record BucketConfig =
  Size :: int64
  FillRate :: int64
  WaitTimeoutMillis :: int64
  MaxIdleMillis :: int64
  MaxDebtMillis :: int64
  MaxTokensPerRequest :: int64
  namespace :: "string option"
  Name :: string

record NamespaceConfig =
  DefaultBucket :: "BucketConfig option"
  DynamicBucketTemplate :: "BucketConfig option"
  MaxDynamicBuckets :: goint
  Buckets :: "(string, BucketConfig) gomap"
  NsName :: string

record ServiceConfig =
  GlobalDefaultBucket :: "BucketConfig option"
  Namespaces :: "(string, NamespaceConfig) gomap"
  Version :: goint

datatype error = Err string | Panic string

subsection \<open>BucketConfig.ApplyDefaults\<close>

definition BucketConfig_ApplyDefaults :: "BucketConfig \<Rightarrow> BucketConfig" where
  "BucketConfig_ApplyDefaults b =
    (let b1 = (if Size b = 0 then b\<lparr>Size := 100\<rparr> else b);
         b2 = (if FillRate b1 = 0 then b1\<lparr>FillRate := 50\<rparr> else b1);
         b3 = (if WaitTimeoutMillis b2 = 0 then b2\<lparr>WaitTimeoutMillis := 1000\<rparr> else b2);
         b4 = (if MaxIdleMillis b3 = 0 then b3\<lparr>MaxIdleMillis := - 1\<rparr> else b3);
         b5 = (if MaxDebtMillis b4 = 0 then b4\<lparr>MaxDebtMillis := 10000\<rparr> else b4);
         b6 = (if MaxTokensPerRequest b5 = 0
               then b5\<lparr>MaxTokensPerRequest := FillRate b5\<rparr> else b5)
     in b6)"

subsection \<open>ServiceConfig.ApplyDefaults\<close>

text \<open>
  The inner loop \<open>for n, b := range ns.Buckets\<close>: every bucket visited is defaulted
  and stamped with its key and its owner, in place.
\<close>

definition ApplyDefaults_buckets ::
  "((string, BucketConfig) gomap \<Rightarrow> (string \<times> BucketConfig) list) \<Rightarrow> string \<Rightarrow>
   (string, BucketConfig) gomap \<Rightarrow> (string, BucketConfig) gomap" where
  "ApplyDefaults_buckets rb owner bs =
     fold (\<lambda>(n, b) m.
        AList.update n ((BucketConfig_ApplyDefaults b)\<lparr>Name := n, namespace := Some owner\<rparr>) m)
       (rb bs) bs"

text \<open>
  The body of the outer loop \<open>for name, ns := range s.Namespaces\<close>. The panic is the
  error \<open>Panic\<close> with the message that \<open>fmt.Sprintf\<close> builds.
\<close>

definition ApplyDefaults_namespace ::
  "((string, BucketConfig) gomap \<Rightarrow> (string \<times> BucketConfig) list) \<Rightarrow> string \<Rightarrow>
   NamespaceConfig \<Rightarrow> error + NamespaceConfig" where
  "ApplyDefaults_namespace rb name ns0 =
    (let ns = ns0\<lparr>NsName := name\<rparr> in
     if DefaultBucket ns \<noteq> None \<and> DynamicBucketTemplate ns \<noteq> None
     then Inl (Panic (''Namespace '' @ name @
            '' is not allowed to have a default bucket as well as allow dynamic buckets.''))
     else
      (let ns1 = ns\<lparr>DefaultBucket := map_option
                   (\<lambda>b. (BucketConfig_ApplyDefaults b)
                           \<lparr>Name := DefaultBucketName, namespace := Some name\<rparr>)
                   (DefaultBucket ns)\<rparr>;
           ns2 = ns1\<lparr>DynamicBucketTemplate := map_option
                   (\<lambda>b. (BucketConfig_ApplyDefaults b)
                           \<lparr>Name := DynamicBucketTemplateName, namespace := Some name\<rparr>)
                   (DynamicBucketTemplate ns1)\<rparr>;
           ns3 = ns2\<lparr>Buckets := ApplyDefaults_buckets rb name (Buckets ns2)\<rparr>
       in Inr ns3))"

text \<open>The outer loop over the entries in the order of the range; it stops at a panic.\<close>

fun ApplyDefaults_namespaces ::
  "((string, BucketConfig) gomap \<Rightarrow> (string \<times> BucketConfig) list) \<Rightarrow>
   (string \<times> NamespaceConfig) list \<Rightarrow> (string, NamespaceConfig) gomap \<Rightarrow>
   error + (string, NamespaceConfig) gomap" where
  "ApplyDefaults_namespaces rb [] m = Inr m"
| "ApplyDefaults_namespaces rb ((name, ns) # rest) m =
     (case ApplyDefaults_namespace rb name ns of
        Inl e \<Rightarrow> Inl e
      | Inr ns' \<Rightarrow> ApplyDefaults_namespaces rb rest (AList.update name ns' m))"

definition ServiceConfig_ApplyDefaults ::
  "((string, NamespaceConfig) gomap \<Rightarrow> (string \<times> NamespaceConfig) list) \<Rightarrow>
   ((string, BucketConfig) gomap \<Rightarrow> (string \<times> BucketConfig) list) \<Rightarrow>
   ServiceConfig \<Rightarrow> error + ServiceConfig" where
  "ServiceConfig_ApplyDefaults rn rb s0 =
    (let s = s0\<lparr>GlobalDefaultBucket := map_option
                 (\<lambda>b. (BucketConfig_ApplyDefaults b)\<lparr>Name := DefaultBucketName\<rparr>)
                 (GlobalDefaultBucket s0)\<rparr>
     in case ApplyDefaults_namespaces rb (rn (Namespaces s)) (Namespaces s) of
          Inl e \<Rightarrow> Inl e
        | Inr m \<Rightarrow> Inr (s\<lparr>Namespaces := m\<rparr>))"

subsection \<open>The protobuf messages of configs.proto\<close>

text \<open>
  Message fields and the elements of repeated fields are pointers in the generated Go
  code, so they are options here; \<open>None\<close> is nil.
\<close>

record pbBucketConfig =
  pb_name :: string
  pb_size :: int64
  pb_fill_rate :: int64
  pb_wait_timeout_millis :: int64
  pb_max_idle_millis :: int64
  pb_max_debt_millis :: int64
  pb_max_tokens_per_request :: int64

record pbNamespaceConfig =
  pbn_name :: string
  pbn_default_bucket :: "pbBucketConfig option"
  pbn_dynamic_bucket_template :: "pbBucketConfig option"
  pbn_max_dynamic_buckets :: int32
  pbn_buckets :: "pbBucketConfig option list"

record pbServiceConfig =
  pbs_global_default_bucket :: "pbBucketConfig option"
  pbs_namespaces :: "pbNamespaceConfig option list"
  pbs_version :: int32

subsection \<open>To the protobuf form\<close>

definition BucketConfig_ToProto :: "BucketConfig \<Rightarrow> pbBucketConfig" where
  "BucketConfig_ToProto b =
     \<lparr>pb_name = Name b,
      pb_size = Size b,
      pb_fill_rate = FillRate b,
      pb_wait_timeout_millis = WaitTimeoutMillis b,
      pb_max_idle_millis = MaxIdleMillis b,
      pb_max_debt_millis = MaxDebtMillis b,
      pb_max_tokens_per_request = MaxTokensPerRequest b\<rparr>"

definition bucketToProto :: "string \<Rightarrow> BucketConfig option \<Rightarrow> pbBucketConfig option" where
  "bucketToProto name b =
     (case b of None \<Rightarrow> None | Some b' \<Rightarrow> Some (BucketConfig_ToProto b'))"

definition bucketMapToProto ::
  "((string, BucketConfig) gomap \<Rightarrow> (string \<times> BucketConfig) list) \<Rightarrow>
   (string, BucketConfig) gomap \<Rightarrow> pbBucketConfig option list" where
  "bucketMapToProto rb buckets =
     fold (\<lambda>(n, b) c. c @ [bucketToProto n (Some b)]) (rb buckets) []"

definition NamespaceConfig_ToProto ::
  "((string, BucketConfig) gomap \<Rightarrow> (string \<times> BucketConfig) list) \<Rightarrow>
   NamespaceConfig \<Rightarrow> pbNamespaceConfig" where
  "NamespaceConfig_ToProto rb n =
     \<lparr>pbn_name = NsName n,
      pbn_default_bucket = bucketToProto DefaultBucketName (DefaultBucket n),
      pbn_dynamic_bucket_template =
        bucketToProto DynamicBucketTemplateName (DynamicBucketTemplate n),
      pbn_max_dynamic_buckets = ucast (MaxDynamicBuckets n),
      pbn_buckets = bucketMapToProto rb (Buckets n)\<rparr>"

definition namespaceMapToProto ::
  "((string, NamespaceConfig) gomap \<Rightarrow> (string \<times> NamespaceConfig) list) \<Rightarrow>
   ((string, BucketConfig) gomap \<Rightarrow> (string \<times> BucketConfig) list) \<Rightarrow>
   (string, NamespaceConfig) gomap \<Rightarrow> pbNamespaceConfig option list" where
  "namespaceMapToProto rn rb namespaces =
     fold (\<lambda>(_, nsp) c. c @ [Some (NamespaceConfig_ToProto rb nsp)]) (rn namespaces) []"

definition ServiceConfig_ToProto ::
  "((string, NamespaceConfig) gomap \<Rightarrow> (string \<times> NamespaceConfig) list) \<Rightarrow>
   ((string, BucketConfig) gomap \<Rightarrow> (string \<times> BucketConfig) list) \<Rightarrow>
   ServiceConfig \<Rightarrow> pbServiceConfig" where
  "ServiceConfig_ToProto rn rb s =
     \<lparr>pbs_global_default_bucket = bucketToProto DefaultBucketName (GlobalDefaultBucket s),
      pbs_namespaces = namespaceMapToProto rn rb (Namespaces s),
      pbs_version = ucast (Version s)\<rparr>"

text \<open>
  \<open>Equals\<close> compares the two protobuf forms with \<open>proto.Equal\<close>, which is structural
  and compares repeated fields position by position: equality of the records. Each of
  the two \<open>ToProto\<close> calls ranges over the maps in an order of its own.
\<close>

definition ServiceConfig_Equals ::
  "((string, NamespaceConfig) gomap \<Rightarrow> (string \<times> NamespaceConfig) list) \<Rightarrow>
   ((string, BucketConfig) gomap \<Rightarrow> (string \<times> BucketConfig) list) \<Rightarrow>
   ((string, NamespaceConfig) gomap \<Rightarrow> (string \<times> NamespaceConfig) list) \<Rightarrow>
   ((string, BucketConfig) gomap \<Rightarrow> (string \<times> BucketConfig) list) \<Rightarrow>
   ServiceConfig \<Rightarrow> ServiceConfig \<Rightarrow> bool" where
  "ServiceConfig_Equals rn1 rb1 rn2 rb2 s other =
     (ServiceConfig_ToProto rn1 rb1 s = ServiceConfig_ToProto rn2 rb2 other)"

subsection \<open>From the protobuf form\<close>








text \<open>
  Order-independent structural equality of two configurations, as the specification
  words it: field by field, with every map compared as the collection of its
  (name, fields) entries and not position by position. The fields of a bucket are its
  name and its six numbers; the back-reference is not serialized and is not compared.
\<close>

definition bucket_fields ::
  "BucketConfig \<Rightarrow> string \<times> int64 \<times> int64 \<times> int64 \<times> int64 \<times> int64 \<times> int64" where
  "bucket_fields b =
     (Name b, Size b, FillRate b, WaitTimeoutMillis b, MaxIdleMillis b, MaxDebtMillis b,
      MaxTokensPerRequest b)"



text \<open>
  The wire carries the version and the maximum of dynamic buckets as \<open>int32\<close>. An
  \<open>int\<close> fits the wire when the conversion to \<open>int32\<close> and back returns it.
\<close>

definition fits_int32 :: "goint \<Rightarrow> bool" where
  "fits_int32 v = (scast (ucast v :: int32) = v)"





text \<open>
  A range order keeps the entries: it returns the entries of the map, each once.
\<close>

definition keeps_entries :: "('a list \<Rightarrow> 'a list) \<Rightarrow> bool" where
  "keeps_entries r = (\<forall>xs. mset (r xs) = mset xs)"



section \<open>Package admin: the API handler\<close>

subsection \<open>Strings and HTTP\<close>

text \<open>
  \<open>strings.Split\<close> for a separator of one byte, the only one the handler uses: the
  pieces between the separators, one more than there are separators.
\<close>

fun strings_Split :: "string \<Rightarrow> char \<Rightarrow> string list" where
  "strings_Split [] sep = [[]]"
| "strings_Split (c # cs) sep =
     (if c = sep then [] # strings_Split cs sep
      else (case strings_Split cs sep of
              p # ps \<Rightarrow> (c # p) # ps
            | [] \<Rightarrow> [[c]]))"

definition strings_HasPrefix :: "string \<Rightarrow> string \<Rightarrow> bool" where
  "strings_HasPrefix s p = (length p \<le> length s \<and> take (length p) s = p)"

definition strings_TrimPrefix :: "string \<Rightarrow> string \<Rightarrow> string" where
  "strings_TrimPrefix s p = (if strings_HasPrefix s p then drop (length p) s else s)"

text \<open>
  The request as the handler reads it: the method, the path of the URL, and the body as
  the outcome of \<open>ioutil.ReadAll\<close> on it.
\<close>

record Request =
  Method :: string
  Path :: string
  Body :: "error + string"

text \<open>
  The response writer: the status code once the header is written (\<open>None\<close> before; a
  handler that returns without writing answers 200 with an empty body) and the bytes
  written to the body.
\<close>

record ResponseWriter =
  status :: "nat option"
  body :: string

definition response_status :: "ResponseWriter \<Rightarrow> nat" where
  "response_status w = (case status w of None \<Rightarrow> 200 | Some c \<Rightarrow> c)"

definition WriteHeader :: "ResponseWriter \<Rightarrow> nat \<Rightarrow> ResponseWriter" where
  "WriteHeader w c = (case status w of None \<Rightarrow> w\<lparr>status := Some c\<rparr> | Some _ \<Rightarrow> w)"

definition Write :: "ResponseWriter \<Rightarrow> string \<Rightarrow> ResponseWriter" where
  "Write w b = (let w' = WriteHeader w 200 in w'\<lparr>body := body w' @ b\<rparr>)"

definition http_Error :: "ResponseWriter \<Rightarrow> string \<Rightarrow> nat \<Rightarrow> ResponseWriter" where
  "http_Error w msg c = Write (WriteHeader w c) (msg @ [CHR 0x0A])"

definition http_NotFound :: "ResponseWriter \<Rightarrow> ResponseWriter" where
  "http_NotFound w = http_Error w ''404 page not found'' 404"

subsection \<open>The store and the libraries\<close>

text \<open>
  \<open>Administrable\<close> is an interface: a record of operations over the state \<open>'s\<close> of
  whatever implements it. Each mutating operation returns its error (\<open>None\<close> is nil)
  and the new state.
\<close>

record 's Administrable =
  Configs :: "'s \<Rightarrow> ServiceConfig"
  DeleteBucket :: "string \<Rightarrow> string \<Rightarrow> 's \<Rightarrow> error option \<times> 's"
  AddBucket :: "string \<Rightarrow> pbBucketConfig \<Rightarrow> 's \<Rightarrow> error option \<times> 's"
  UpdateBucket :: "string \<Rightarrow> pbBucketConfig \<Rightarrow> 's \<Rightarrow> error option \<times> 's"
  DeleteNamespace :: "string \<Rightarrow> 's \<Rightarrow> error option \<times> 's"
  AddNamespace :: "pbNamespaceConfig \<Rightarrow> 's \<Rightarrow> error option \<times> 's"
  UpdateNamespace :: "pbNamespaceConfig \<Rightarrow> 's \<Rightarrow> error option \<times> 's"

text \<open>
  What the handler takes from \<open>encoding/json\<close> and from the Go runtime.
  \<open>json.Unmarshal(bytes, c)\<close> returns its error and the message \<open>c\<close> as it leaves
  it; \<open>json.Marshal\<close> returns the bytes or an error; the two range orders are those
  of the maps that \<open>ToProto\<close> walks.
\<close>

record libs =
  json_Unmarshal_Bucket :: "string \<Rightarrow> pbBucketConfig \<Rightarrow> error option \<times> pbBucketConfig"
  json_Unmarshal_Namespace ::
    "string \<Rightarrow> pbNamespaceConfig \<Rightarrow> error option \<times> pbNamespaceConfig"
  json_Marshal_Service :: "pbServiceConfig \<Rightarrow> error + string"
  json_Marshal_Namespace :: "pbNamespaceConfig \<Rightarrow> error + string"
  range_Namespaces :: "(string, NamespaceConfig) gomap \<Rightarrow> (string \<times> NamespaceConfig) list"
  range_Buckets :: "(string, BucketConfig) gomap \<Rightarrow> (string \<times> BucketConfig) list"

text \<open>The zero messages \<open>&pb.BucketConfig{}\<close> and \<open>&pb.NamespaceConfig{}\<close>.\<close>

definition pbBucketConfig_zero :: pbBucketConfig where
  "pbBucketConfig_zero =
     \<lparr>pb_name = [], pb_size = 0, pb_fill_rate = 0, pb_wait_timeout_millis = 0,
      pb_max_idle_millis = 0, pb_max_debt_millis = 0, pb_max_tokens_per_request = 0\<rparr>"

definition pbNamespaceConfig_zero :: pbNamespaceConfig where
  "pbNamespaceConfig_zero =
     \<lparr>pbn_name = [], pbn_default_bucket = None, pbn_dynamic_bucket_template = None,
      pbn_max_dynamic_buckets = 0, pbn_buckets = []\<rparr>"

subsection \<open>The handler\<close>

definition extractNamespaceName :: "string \<Rightarrow> string \<times> string" where
  "extractNamespaceName params =
     (let parts = strings_Split params (CHR ''/'') in
      if length parts < 2 then
        (if length parts < 1 then (GlobalNamespace, DefaultBucketName)
         else (parts ! 0, DefaultBucketName))
      else (parts ! 0, parts ! 1))"

definition getBucketConfig :: "libs \<Rightarrow> error + string \<Rightarrow> error + pbBucketConfig" where
  "getBucketConfig l r =
     (case r of
        Inl err \<Rightarrow> Inl err
      | Inr bytes \<Rightarrow>
          (let c = pbBucketConfig_zero;
               (e, c') = json_Unmarshal_Bucket l bytes c
           in Inr c'))"

definition getNamespaceConfig :: "libs \<Rightarrow> error + string \<Rightarrow> error + pbNamespaceConfig" where
  "getNamespaceConfig l r =
     (case r of
        Inl err \<Rightarrow> Inl err
      | Inr bytes \<Rightarrow>
          (let c = pbNamespaceConfig_zero;
               (e, c') = json_Unmarshal_Namespace l bytes c
           in Inr c'))"

definition writeConfigs ::
  "libs \<Rightarrow> 's Administrable \<Rightarrow> 's \<Rightarrow> string \<Rightarrow> ResponseWriter \<Rightarrow>
   error option \<times> ResponseWriter" where
  "writeConfigs l a s nsp w =
     (let cfgs = Configs a s in
      if nsp = [] \<or> nsp = GlobalNamespace then
        (case json_Marshal_Service l
                (ServiceConfig_ToProto (range_Namespaces l) (range_Buckets l) cfgs) of
           Inl e \<Rightarrow> (Some e, w)
         | Inr b \<Rightarrow> (None, Write w b))
      else
        (case map_of (Namespaces cfgs) nsp of
           None \<Rightarrow> (Some (Err (''Unable to locate namespace '' @ nsp)), w)
         | Some n \<Rightarrow>
            (case json_Marshal_Namespace l (NamespaceConfig_ToProto (range_Buckets l) n) of
               Inl e \<Rightarrow> (Some e, w)
             | Inr b \<Rightarrow> (None, Write w b))))"

text \<open>
  \<open>apiHandler.ServeHTTP\<close>, from the writer and the state of the store before the
  request to both after it. Logging is left out.
\<close>

definition apiHandler_ServeHTTP ::
  "libs \<Rightarrow> 's Administrable \<Rightarrow> Request \<Rightarrow> ResponseWriter \<times> 's \<Rightarrow> ResponseWriter \<times> 's" where
  "apiHandler_ServeHTTP l a r ws =
    (case ws of (w, s) \<Rightarrow>
     if strings_HasPrefix (Path r) ''/api/'' then
       (let params = strings_TrimPrefix (Path r) ''/api/'';
            (nsp, name) = extractNamespaceName params
        in if Method r = ''DELETE'' then (w, snd (DeleteBucket a nsp name s))
           else if Method r = ''PUT'' then
             (case getBucketConfig l (Body r) of
                Inl e \<Rightarrow> (http_Error w ''500 bad content'' 500, s)
              | Inr c \<Rightarrow> (w, snd (AddBucket a nsp c s)))
           else if Method r = ''POST'' then
             (case getBucketConfig l (Body r) of
                Inl e \<Rightarrow> (http_Error w ''500 bad content'' 500, s)
              | Inr c \<Rightarrow> (w, snd (UpdateBucket a nsp c s)))
           else if Method r = ''GET'' then
             (case writeConfigs l a s nsp w of
                (Some e, w') \<Rightarrow> (http_Error w' ''500 bad content'' 500, s)
              | (None, w') \<Rightarrow> (w', s))
           else (http_NotFound w, s))
     else if strings_HasPrefix (Path r) ''/api/namespace/'' then
       (let ns = strings_TrimPrefix (Path r) ''/api/namespace/''
        in if Method r = ''DELETE'' then (w, snd (DeleteNamespace a ns s))
           else if Method r = ''PUT'' then
             (case getNamespaceConfig l (Body r) of
                Inl e \<Rightarrow> (http_Error w ''500 bad content'' 500, s)
              | Inr c \<Rightarrow> (w, snd (AddNamespace a c s)))
           else if Method r = ''POST'' then
             (case getNamespaceConfig l (Body r) of
                Inl e \<Rightarrow> (http_Error w ''500 bad content'' 500, s)
              | Inr c \<Rightarrow> (w, snd (UpdateNamespace a c s)))
           else (http_NotFound w, s))
     else (http_NotFound w, s))"

subsection \<open>A store that records its calls\<close>

text \<open>
  An implementation of \<open>Administrable\<close> for running the handler: its state is the list
  of the calls made so far, its configuration is fixed, and every mutating call
  returns the given error.
\<close>

datatype call =
    Call_DeleteBucket string string
  | Call_AddBucket string pbBucketConfig
  | Call_UpdateBucket string pbBucketConfig
  | Call_DeleteNamespace string
  | Call_AddNamespace pbNamespaceConfig
  | Call_UpdateNamespace pbNamespaceConfig

definition recording_store :: "ServiceConfig \<Rightarrow> error option \<Rightarrow> call list Administrable" where
  "recording_store cfg err =
     \<lparr>Configs = (\<lambda>s. cfg),
      DeleteBucket = (\<lambda>ns n s. (err, s @ [Call_DeleteBucket ns n])),
      AddBucket = (\<lambda>ns b s. (err, s @ [Call_AddBucket ns b])),
      UpdateBucket = (\<lambda>ns b s. (err, s @ [Call_UpdateBucket ns b])),
      DeleteNamespace = (\<lambda>ns s. (err, s @ [Call_DeleteNamespace ns])),
      AddNamespace = (\<lambda>n s. (err, s @ [Call_AddNamespace n])),
      UpdateNamespace = (\<lambda>n s. (err, s @ [Call_UpdateNamespace n]))\<rparr>"

text \<open>
  Libraries for running the handler: a JSON decoder that rejects every body and leaves
  the message as it was, encoders that return fixed bytes, and ranges in list order.
\<close>

definition rejecting_libs :: libs where
  "rejecting_libs =
     \<lparr>json_Unmarshal_Bucket = (\<lambda>bytes c. (Some (Err ''invalid character''), c)),
      json_Unmarshal_Namespace = (\<lambda>bytes c. (Some (Err ''invalid character''), c)),
      json_Marshal_Service = (\<lambda>p. Inr ''{service}''),
      json_Marshal_Namespace = (\<lambda>p. Inr (''{namespace '' @ pbn_name p @ ''}'')),
      range_Namespaces = (\<lambda>m. m),
      range_Buckets = (\<lambda>m. m)\<rparr>"

subsection \<open>Inputs for running the definitions\<close>

definition zero_bucket :: BucketConfig where
  "zero_bucket =
     \<lparr>Size = 0, FillRate = 0, WaitTimeoutMillis = 0, MaxIdleMillis = 0,
      MaxDebtMillis = 0, MaxTokensPerRequest = 0, namespace = None, Name = ''b''\<rparr>"

definition negative_bucket :: BucketConfig where
  "negative_bucket =
     \<lparr>Size = - 5, FillRate = 7, WaitTimeoutMillis = 0, MaxIdleMillis = - 3,
      MaxDebtMillis = 0, MaxTokensPerRequest = 0, namespace = Some ''ns'', Name = ''b''\<rparr>"

definition fresh_writer :: ResponseWriter where
  "fresh_writer = \<lparr>status = None, body = []\<rparr>"

definition payments_config :: ServiceConfig where
  "payments_config =
     \<lparr>GlobalDefaultBucket = None,
      Namespaces = [(''payments'',
         \<lparr>DefaultBucket = None, DynamicBucketTemplate = None, MaxDynamicBuckets = 0,
          Buckets = [(''checkout'', zero_bucket\<lparr>FillRate := 200\<rparr>)], NsName = ''payments''\<rparr>)],
      Version = 1\<rparr>"

definition conflicting_config :: ServiceConfig where
  "conflicting_config =
     \<lparr>GlobalDefaultBucket = None,
      Namespaces =
        [(''a'', \<lparr>DefaultBucket = Some zero_bucket, DynamicBucketTemplate = None,
                 MaxDynamicBuckets = 0, Buckets = [], NsName = []\<rparr>),
         (''b'', \<lparr>DefaultBucket = Some zero_bucket, DynamicBucketTemplate = Some negative_bucket,
                 MaxDynamicBuckets = 3, Buckets = [(''x'', zero_bucket)], NsName = []\<rparr>)],
      Version = 0\<rparr>"


definition shop_defaulted :: ServiceConfig where
  "shop_defaulted =
     \<lparr>GlobalDefaultBucket = Some
        \<lparr>Size = 100, FillRate = 50, WaitTimeoutMillis = 1000, MaxIdleMillis = - 1,
         MaxDebtMillis = 10000, MaxTokensPerRequest = 50, namespace = None,
         Name = ''___DEFAULT_BUCKET___''\<rparr>,
      Namespaces =
        [(''payments'',
            \<lparr>DefaultBucket = Some
               \<lparr>Size = 100, FillRate = 50, WaitTimeoutMillis = 1000, MaxIdleMillis = - 1,
                MaxDebtMillis = 10000, MaxTokensPerRequest = 50, namespace = Some ''payments'',
                Name = ''___DEFAULT_BUCKET___''\<rparr>,
             DynamicBucketTemplate = None,
             MaxDynamicBuckets = 0,
             Buckets =
               [(''checkout'',
                   \<lparr>Size = 100, FillRate = 200, WaitTimeoutMillis = 1000, MaxIdleMillis = - 1,
                    MaxDebtMillis = 10000, MaxTokensPerRequest = 200,
                    namespace = Some ''payments'', Name = ''checkout''\<rparr>),
                (''refund'',
                   \<lparr>Size = - 5, FillRate = 7, WaitTimeoutMillis = 1000, MaxIdleMillis = - 3,
                    MaxDebtMillis = 10000, MaxTokensPerRequest = 7,
                    namespace = Some ''payments'', Name = ''refund''\<rparr>)],
             NsName = ''payments''\<rparr>),
         (''search'',
            \<lparr>DefaultBucket = None,
             DynamicBucketTemplate = Some
               \<lparr>Size = - 5, FillRate = 7, WaitTimeoutMillis = 1000, MaxIdleMillis = - 3,
                MaxDebtMillis = 10000, MaxTokensPerRequest = 7, namespace = Some ''search'',
                Name = ''___DYNAMIC_BUCKET_TPL___''\<rparr>,
             MaxDynamicBuckets = 5, Buckets = [], NsName = ''search''\<rparr>)],
      Version = 7\<rparr>"


section \<open>Defaulting of a bucket\<close>

text \<open>What \<open>BucketConfig.ApplyDefaults\<close> leaves in each field.\<close>

lemma ApplyDefaults_Size:
  "Size (BucketConfig_ApplyDefaults b) = (if Size b = 0 then 100 else Size b)"
  by (simp add: BucketConfig_ApplyDefaults_def Let_def)

lemma ApplyDefaults_FillRate:
  "FillRate (BucketConfig_ApplyDefaults b) = (if FillRate b = 0 then 50 else FillRate b)"
  by (simp add: BucketConfig_ApplyDefaults_def Let_def)

lemma ApplyDefaults_WaitTimeoutMillis:
  "WaitTimeoutMillis (BucketConfig_ApplyDefaults b) =
     (if WaitTimeoutMillis b = 0 then 1000 else WaitTimeoutMillis b)"
  by (simp add: BucketConfig_ApplyDefaults_def Let_def)

lemma ApplyDefaults_MaxIdleMillis:
  "MaxIdleMillis (BucketConfig_ApplyDefaults b) =
     (if MaxIdleMillis b = 0 then - 1 else MaxIdleMillis b)"
  by (simp add: BucketConfig_ApplyDefaults_def Let_def)

lemma ApplyDefaults_MaxDebtMillis:
  "MaxDebtMillis (BucketConfig_ApplyDefaults b) =
     (if MaxDebtMillis b = 0 then 10000 else MaxDebtMillis b)"
  by (simp add: BucketConfig_ApplyDefaults_def Let_def)

lemma ApplyDefaults_MaxTokensPerRequest:
  "MaxTokensPerRequest (BucketConfig_ApplyDefaults b) =
     (if MaxTokensPerRequest b = 0 then (if FillRate b = 0 then 50 else FillRate b)
      else MaxTokensPerRequest b)"
  by (simp add: BucketConfig_ApplyDefaults_def Let_def)

lemma ApplyDefaults_Name: "Name (BucketConfig_ApplyDefaults b) = Name b"
  by (simp add: BucketConfig_ApplyDefaults_def Let_def)

lemma ApplyDefaults_namespace: "namespace (BucketConfig_ApplyDefaults b) = namespace b"
  by (simp add: BucketConfig_ApplyDefaults_def Let_def)

lemma ApplyDefaults_more: "BucketConfig.more (BucketConfig_ApplyDefaults b) = BucketConfig.more b"
  by (simp add: BucketConfig_ApplyDefaults_def Let_def)

lemmas ApplyDefaults_fields =
  ApplyDefaults_Size ApplyDefaults_FillRate ApplyDefaults_WaitTimeoutMillis
  ApplyDefaults_MaxIdleMillis ApplyDefaults_MaxDebtMillis ApplyDefaults_MaxTokensPerRequest
  ApplyDefaults_Name ApplyDefaults_namespace ApplyDefaults_more

text \<open>
  C5: after \<open>ApplyDefaults\<close> every numeric field that was zero holds its default:
  size 100, fill rate 50, wait timeout 1000, max idle -1, max debt 10000, and the
  maximum tokens per request equal the bucket's fill rate (as it is after defaulting).
\<close>

theorem ApplyDefaults_fills_defaults:
  "(Size b = 0 \<longrightarrow> Size (BucketConfig_ApplyDefaults b) = 100) \<and>
   (FillRate b = 0 \<longrightarrow> FillRate (BucketConfig_ApplyDefaults b) = 50) \<and>
   (WaitTimeoutMillis b = 0 \<longrightarrow> WaitTimeoutMillis (BucketConfig_ApplyDefaults b) = 1000) \<and>
   (MaxIdleMillis b = 0 \<longrightarrow> MaxIdleMillis (BucketConfig_ApplyDefaults b) = - 1 \<and>
      sint (MaxIdleMillis (BucketConfig_ApplyDefaults b)) = - 1) \<and>
   (MaxDebtMillis b = 0 \<longrightarrow> MaxDebtMillis (BucketConfig_ApplyDefaults b) = 10000) \<and>
   (MaxTokensPerRequest b = 0 \<longrightarrow>
      MaxTokensPerRequest (BucketConfig_ApplyDefaults b) = FillRate (BucketConfig_ApplyDefaults b))"
  by (simp add: ApplyDefaults_fields)

theorem ApplyDefaults_fills_defaults_witness:
  "Size zero_bucket = 0 \<and> FillRate zero_bucket = 0 \<and> WaitTimeoutMillis zero_bucket = 0 \<and>
   MaxIdleMillis zero_bucket = 0 \<and> MaxDebtMillis zero_bucket = 0 \<and>
   MaxTokensPerRequest zero_bucket = 0 \<and>
   BucketConfig_ApplyDefaults zero_bucket =
     \<lparr>Size = 100, FillRate = 50, WaitTimeoutMillis = 1000, MaxIdleMillis = - 1,
      MaxDebtMillis = 10000, MaxTokensPerRequest = 50, namespace = None, Name = ''b''\<rparr>"
  using ApplyDefaults_fills_defaults [of zero_bucket]
  by (simp add: zero_bucket_def BucketConfig_ApplyDefaults_def)

text \<open>
  C6: after \<open>ApplyDefaults\<close>, whatever fields were unset, none of the six numeric
  fields is zero (an unset maximum idle time has become -1), and applying the defaults
  once more changes nothing.
\<close>

theorem ApplyDefaults_total_idempotent:
  "Size (BucketConfig_ApplyDefaults b) \<noteq> 0 \<and>
   FillRate (BucketConfig_ApplyDefaults b) \<noteq> 0 \<and>
   WaitTimeoutMillis (BucketConfig_ApplyDefaults b) \<noteq> 0 \<and>
   MaxIdleMillis (BucketConfig_ApplyDefaults b) \<noteq> 0 \<and>
   MaxDebtMillis (BucketConfig_ApplyDefaults b) \<noteq> 0 \<and>
   MaxTokensPerRequest (BucketConfig_ApplyDefaults b) \<noteq> 0 \<and>
   BucketConfig_ApplyDefaults (BucketConfig_ApplyDefaults b) = BucketConfig_ApplyDefaults b"
proof -
  have "BucketConfig_ApplyDefaults (BucketConfig_ApplyDefaults b) = BucketConfig_ApplyDefaults b"
    by (rule BucketConfig.equality) (simp_all add: ApplyDefaults_fields)
  then show ?thesis
    by (simp add: ApplyDefaults_fields)
qed

text \<open>
  C10: \<open>ApplyDefaults\<close> changes a numeric field only if it is zero on entry. A field
  that is not zero, negative values included, keeps its value; the name (and the
  back-reference) are kept; a field that is zero, whether left unset or set to zero,
  is replaced by its default.
\<close>

theorem ApplyDefaults_frame:
  "(Size b \<noteq> 0 \<longrightarrow> Size (BucketConfig_ApplyDefaults b) = Size b) \<and>
   (FillRate b \<noteq> 0 \<longrightarrow> FillRate (BucketConfig_ApplyDefaults b) = FillRate b) \<and>
   (WaitTimeoutMillis b \<noteq> 0 \<longrightarrow>
      WaitTimeoutMillis (BucketConfig_ApplyDefaults b) = WaitTimeoutMillis b) \<and>
   (MaxIdleMillis b \<noteq> 0 \<longrightarrow> MaxIdleMillis (BucketConfig_ApplyDefaults b) = MaxIdleMillis b) \<and>
   (MaxDebtMillis b \<noteq> 0 \<longrightarrow> MaxDebtMillis (BucketConfig_ApplyDefaults b) = MaxDebtMillis b) \<and>
   (MaxTokensPerRequest b \<noteq> 0 \<longrightarrow>
      MaxTokensPerRequest (BucketConfig_ApplyDefaults b) = MaxTokensPerRequest b) \<and>
   Name (BucketConfig_ApplyDefaults b) = Name b \<and>
   namespace (BucketConfig_ApplyDefaults b) = namespace b \<and>
   (Size b = 0 \<longrightarrow> Size (BucketConfig_ApplyDefaults b) = 100) \<and>
   (FillRate b = 0 \<longrightarrow> FillRate (BucketConfig_ApplyDefaults b) = 50) \<and>
   (WaitTimeoutMillis b = 0 \<longrightarrow> WaitTimeoutMillis (BucketConfig_ApplyDefaults b) = 1000) \<and>
   (MaxIdleMillis b = 0 \<longrightarrow> MaxIdleMillis (BucketConfig_ApplyDefaults b) = - 1) \<and>
   (MaxDebtMillis b = 0 \<longrightarrow> MaxDebtMillis (BucketConfig_ApplyDefaults b) = 10000) \<and>
   (MaxTokensPerRequest b = 0 \<longrightarrow>
      MaxTokensPerRequest (BucketConfig_ApplyDefaults b) = FillRate (BucketConfig_ApplyDefaults b))"
  by (simp add: ApplyDefaults_fields)

theorem ApplyDefaults_frame_witness:
  "Size negative_bucket \<noteq> 0 \<and> sint (Size negative_bucket) = - 5 \<and>
   sint (MaxIdleMillis negative_bucket) = - 3 \<and> WaitTimeoutMillis negative_bucket = 0 \<and>
   BucketConfig_ApplyDefaults negative_bucket =
     \<lparr>Size = - 5, FillRate = 7, WaitTimeoutMillis = 1000, MaxIdleMillis = - 3,
      MaxDebtMillis = 10000, MaxTokensPerRequest = 7, namespace = Some ''ns'', Name = ''b''\<rparr>"
  using ApplyDefaults_frame [of negative_bucket]
  by (simp add: negative_bucket_def BucketConfig_ApplyDefaults_def)

section \<open>Address resolution\<close>

lemma strings_Split_not_Nil: "strings_Split s c \<noteq> []"
  by (induction s) (auto split: list.splits)

lemma strings_Split_no_sep: "c \<notin> set s \<Longrightarrow> strings_Split s c = [s]"
  by (induction s) (auto split: list.splits)

lemma strings_Split_at_sep:
  "c \<notin> set s \<Longrightarrow> strings_Split (s @ c # t) c = s # strings_Split t c"
  by (induction s) (auto split: list.splits)

text \<open>
  The rows of the addressing table that hold on the code: one segment resolves to the
  segment and the default bucket name, two segments to the pair, and further segments
  are ignored.
\<close>

lemma extractNamespaceName_one_segment:
  "CHR ''/'' \<notin> set ns \<Longrightarrow> extractNamespaceName ns = (ns, DefaultBucketName)"
  by (simp add: extractNamespaceName_def strings_Split_no_sep)

lemma extractNamespaceName_two_segments:
  "CHR ''/'' \<notin> set ns \<Longrightarrow> CHR ''/'' \<notin> set b \<Longrightarrow>
   extractNamespaceName (ns @ ''/'' @ b) = (ns, b)"
  by (simp add: extractNamespaceName_def strings_Split_no_sep strings_Split_at_sep)

lemma extractNamespaceName_more_segments:
  "CHR ''/'' \<notin> set ns \<Longrightarrow> CHR ''/'' \<notin> set b \<Longrightarrow>
   extractNamespaceName (ns @ ''/'' @ b @ ''/'' @ extra) = (ns, b)"
  using strings_Split_not_Nil [of extra "CHR ''/''"]
  by (cases "strings_Split extra (CHR ''/'')")
     (simp_all add: extractNamespaceName_def strings_Split_no_sep strings_Split_at_sep Let_def)

text \<open>
  C3, at the empty path remainder: \<open>strings.Split\<close> returns one empty segment, never
  no segment, so the branch for the global namespace is not taken and the namespace
  resolved is the empty string.
\<close>

theorem extractNamespaceName_empty:
  "extractNamespaceName [] = ([], DefaultBucketName) \<and>
   extractNamespaceName [] \<noteq> (GlobalNamespace, DefaultBucketName)"
  by (simp add: extractNamespaceName_def GlobalNamespace_def)

section \<open>The API handler\<close>

text \<open>
  Every path that begins with \<open>/api/namespace/\<close> begins with \<open>/api/\<close>, which
  the handler tests first.
\<close>

lemma strings_HasPrefix_append:
  assumes "strings_HasPrefix s (p @ q)"
  shows "strings_HasPrefix s p"
proof -
  from assms have l: "length p + length q \<le> length s"
    and t: "take (length p + length q) s = p @ q"
    by (simp_all add: strings_HasPrefix_def)
  have "take (length p) s = take (length p) (take (length p + length q) s)"
    by (simp add: min_def)
  also have "\<dots> = p"
    by (simp add: t)
  finally show ?thesis
    using l by (simp add: strings_HasPrefix_def)
qed

lemma HasPrefix_api_namespace:
  "strings_HasPrefix p ''/api/namespace/'' \<Longrightarrow> strings_HasPrefix p ''/api/''"
  using strings_HasPrefix_append [of p "''/api/''" "''namespace/''"] by simp

text \<open>
  C1, at a PUT whose body is not JSON: \<open>getBucketConfig\<close> drops the error of
  \<open>json.Unmarshal\<close> and returns the message with a nil error, so the handler writes no
  error response and calls \<open>AddBucket\<close> with the zero message.
\<close>

theorem PUT_malformed_body_reaches_store:
  "fst (json_Unmarshal_Bucket rejecting_libs ''{'' pbBucketConfig_zero) \<noteq> None \<and>
   apiHandler_ServeHTTP rejecting_libs (recording_store cfg None)
     \<lparr>Method = ''PUT'', Path = ''/api/ns/b'', Body = Inr ''{''\<rparr> (fresh_writer, []) =
   (fresh_writer, [Call_AddBucket ''ns'' pbBucketConfig_zero])"
  by (simp add: apiHandler_ServeHTTP_def rejecting_libs_def recording_store_def
      strings_HasPrefix_def strings_TrimPrefix_def extractNamespaceName_def getBucketConfig_def)

text \<open>
  C2, at a DELETE of \<open>/api/namespace/payments\<close>: the path matches the first test of the
  handler, so the request is a bucket operation on the bucket \<open>payments\<close> of the
  namespace called \<open>namespace\<close>, and \<open>DeleteNamespace\<close> is not called.
\<close>

theorem namespace_path_handled_as_bucket:
  "strings_HasPrefix ''/api/namespace/payments'' ''/api/namespace/'' \<and>
   apiHandler_ServeHTTP l (recording_store cfg None)
     \<lparr>Method = ''DELETE'', Path = ''/api/namespace/payments'', Body = Inr []\<rparr>
     (fresh_writer, []) =
   (fresh_writer, [Call_DeleteBucket ''namespace'' ''payments''])"
  by (simp add: apiHandler_ServeHTTP_def recording_store_def
      strings_HasPrefix_def strings_TrimPrefix_def extractNamespaceName_def)

text \<open>
  C8: a GET on a bucket address. When the namespace resolved is the global sentinel or
  empty, the body is the JSON encoding of the whole configuration, with status 200;
  otherwise, when the namespace is a key of the configuration, the body is the JSON
  encoding of that namespace, with status 200; otherwise the response is the status 500
  with the generic message. The store is left as it was.
\<close>

theorem GET_writes_configs:
  assumes "strings_HasPrefix (Path r) ''/api/''" and "Method r = ''GET''"
    and "nsp = fst (extractNamespaceName (strings_TrimPrefix (Path r) ''/api/''))"
  shows
   "(nsp = GlobalNamespace \<or> nsp = [] \<longrightarrow>
       (\<forall>b. json_Marshal_Service l
              (ServiceConfig_ToProto (range_Namespaces l) (range_Buckets l) (Configs a s)) = Inr b \<longrightarrow>
            apiHandler_ServeHTTP l a r (fresh_writer, s) = (\<lparr>status = Some 200, body = b\<rparr>, s))) \<and>
    (nsp \<noteq> GlobalNamespace \<and> nsp \<noteq> [] \<longrightarrow>
       (\<forall>n b. map_of (Namespaces (Configs a s)) nsp = Some n \<and>
              json_Marshal_Namespace l (NamespaceConfig_ToProto (range_Buckets l) n) = Inr b \<longrightarrow>
            apiHandler_ServeHTTP l a r (fresh_writer, s) = (\<lparr>status = Some 200, body = b\<rparr>, s))) \<and>
    (nsp \<noteq> GlobalNamespace \<and> nsp \<noteq> [] \<and> map_of (Namespaces (Configs a s)) nsp = None \<longrightarrow>
       apiHandler_ServeHTTP l a r (fresh_writer, s) =
         (\<lparr>status = Some 500, body = ''500 bad content'' @ [CHR 0x0A]\<rparr>, s))"
  using assms
  by (auto simp add: apiHandler_ServeHTTP_def writeConfigs_def Let_def fresh_writer_def
      Write_def WriteHeader_def http_Error_def split: prod.splits)

theorem GET_writes_configs_witness:
  "apiHandler_ServeHTTP rejecting_libs (recording_store payments_config None)
     \<lparr>Method = ''GET'', Path = ''/api/'', Body = Inr []\<rparr> (fresh_writer, []) =
     (\<lparr>status = Some 200, body = ''{service}''\<rparr>, []) \<and>
   apiHandler_ServeHTTP rejecting_libs (recording_store payments_config None)
     \<lparr>Method = ''GET'', Path = ''/api/payments/checkout'', Body = Inr []\<rparr> (fresh_writer, []) =
     (\<lparr>status = Some 200, body = ''{namespace payments}''\<rparr>, []) \<and>
   apiHandler_ServeHTTP rejecting_libs (recording_store payments_config None)
     \<lparr>Method = ''GET'', Path = ''/api/orders'', Body = Inr []\<rparr> (fresh_writer, []) =
     (\<lparr>status = Some 500, body = ''500 bad content'' @ [CHR 0x0A]\<rparr>, [])"
  using GET_writes_configs [of "\<lparr>Method = ''GET'', Path = ''/api/'', Body = Inr []\<rparr>" "[]"
      rejecting_libs "recording_store payments_config None" "[]"]
    GET_writes_configs [of "\<lparr>Method = ''GET'', Path = ''/api/payments/checkout'', Body = Inr []\<rparr>" "''payments''"
      rejecting_libs "recording_store payments_config None" "[]"]
    GET_writes_configs [of "\<lparr>Method = ''GET'', Path = ''/api/orders'', Body = Inr []\<rparr>" "''orders''"
      rejecting_libs "recording_store payments_config None" "[]"]
  by (simp add: strings_HasPrefix_def strings_TrimPrefix_def extractNamespaceName_def
      GlobalNamespace_def rejecting_libs_def recording_store_def payments_config_def
      NamespaceConfig_ToProto_def)

text \<open>
  C9: on a DELETE, and on a PUT or POST whose body was read, the response does not
  depend on the store: nothing is written to the response (so the status is 200),
  whatever error the operation of the store returns.
\<close>

theorem store_errors_not_propagated:
  assumes "strings_HasPrefix (Path r) ''/api/''"
    and "Method r = ''DELETE'' \<or>
         (Method r = ''PUT'' \<or> Method r = ''POST'') \<and> (\<exists>bytes. Body r = Inr bytes)"
  shows "fst (apiHandler_ServeHTTP l a r (w, s)) = w \<and>
         fst (apiHandler_ServeHTTP l a r (w, s)) = fst (apiHandler_ServeHTTP l a' r (w, s'))"
  using assms
  by (auto simp add: apiHandler_ServeHTTP_def getBucketConfig_def Let_def split: prod.splits)

theorem store_errors_not_propagated_witness:
  "strings_HasPrefix ''/api/ns/b'' ''/api/'' \<and>
   apiHandler_ServeHTTP rejecting_libs
     (recording_store payments_config (Some (Err ''no such bucket'')))
     \<lparr>Method = ''DELETE'', Path = ''/api/ns/b'', Body = Inr []\<rparr> (fresh_writer, []) =
   (fresh_writer, [Call_DeleteBucket ''ns'' ''b'']) \<and>
   apiHandler_ServeHTTP rejecting_libs
     (recording_store payments_config (Some (Err ''bucket exists'')))
     \<lparr>Method = ''PUT'', Path = ''/api/ns/b'', Body = Inr ''{}''\<rparr> (fresh_writer, []) =
   (fresh_writer, [Call_AddBucket ''ns'' pbBucketConfig_zero]) \<and>
   fst (apiHandler_ServeHTTP rejecting_libs (recording_store payments_config None)
     \<lparr>Method = ''DELETE'', Path = ''/api/ns/b'', Body = Inr []\<rparr> (fresh_writer, [])) =
   fresh_writer \<and>
   fst (apiHandler_ServeHTTP rejecting_libs (recording_store payments_config None)
     \<lparr>Method = ''PUT'', Path = ''/api/ns/b'', Body = Inr ''{}''\<rparr> (fresh_writer, [])) =
   fresh_writer \<and>
   response_status fresh_writer = 200"
  using
    store_errors_not_propagated
      [of "\<lparr>Method = ''DELETE'', Path = ''/api/ns/b'', Body = Inr []\<rparr>" rejecting_libs
        "recording_store payments_config (Some (Err ''no such bucket''))" fresh_writer "[]"
        "recording_store payments_config None" "[]"]
    store_errors_not_propagated
      [of "\<lparr>Method = ''PUT'', Path = ''/api/ns/b'', Body = Inr ''{}''\<rparr>" rejecting_libs
        "recording_store payments_config (Some (Err ''bucket exists''))" fresh_writer "[]"
        "recording_store payments_config None" "[]"]
  by (simp add: apiHandler_ServeHTTP_def recording_store_def rejecting_libs_def
      getBucketConfig_def strings_HasPrefix_def strings_TrimPrefix_def
      extractNamespaceName_def response_status_def fresh_writer_def)

section \<open>Defaulting of a service configuration\<close>

lemma ApplyDefaults_namespace_conflict:
  "DefaultBucket ns \<noteq> None \<Longrightarrow> DynamicBucketTemplate ns \<noteq> None \<Longrightarrow>
   ApplyDefaults_namespace rb name ns =
     Inl (Panic (''Namespace '' @ name @
       '' is not allowed to have a default bucket as well as allow dynamic buckets.''))"
  by (simp add: ApplyDefaults_namespace_def)

lemma ApplyDefaults_namespace_no_conflict:
  "DefaultBucket ns = None \<or> DynamicBucketTemplate ns = None \<Longrightarrow>
   \<exists>ns'. ApplyDefaults_namespace rb name ns = Inr ns'"
  by (auto simp add: ApplyDefaults_namespace_def Let_def)

lemma ApplyDefaults_namespaces_conflict:
  "(k, ns) \<in> set xs \<Longrightarrow> DefaultBucket ns \<noteq> None \<Longrightarrow> DynamicBucketTemplate ns \<noteq> None \<Longrightarrow>
   \<exists>k' ns'. (k', ns') \<in> set xs \<and> DefaultBucket ns' \<noteq> None \<and>
     DynamicBucketTemplate ns' \<noteq> None \<and>
     ApplyDefaults_namespaces rb xs m =
       Inl (Panic (''Namespace '' @ k' @
         '' is not allowed to have a default bucket as well as allow dynamic buckets.''))"
proof (induction xs arbitrary: m)
  case Nil
  then show ?case by simp
next
  case (Cons x xs)
  obtain name n where x: "x = (name, n)" by (cases x)
  show ?case
  proof (cases "DefaultBucket n \<noteq> None \<and> DynamicBucketTemplate n \<noteq> None")
    case True
    then have "ApplyDefaults_namespaces rb (x # xs) m =
       Inl (Panic (''Namespace '' @ name @
         '' is not allowed to have a default bucket as well as allow dynamic buckets.''))"
      by (simp add: x ApplyDefaults_namespace_conflict)
    with True x show ?thesis by (intro exI [of _ name] exI [of _ n]) simp
  next
    case False
    then obtain n' where n': "ApplyDefaults_namespace rb name n = Inr n'"
      using ApplyDefaults_namespace_no_conflict [of n rb name] by auto
    from False Cons.prems x have "(k, ns) \<in> set xs" by auto
    from Cons.IH [OF this Cons.prems(2,3), of "AList.update name n' m"]
    obtain k' ns' where "(k', ns') \<in> set xs" "DefaultBucket ns' \<noteq> None"
      "DynamicBucketTemplate ns' \<noteq> None"
      "ApplyDefaults_namespaces rb xs (AList.update name n' m) =
         Inl (Panic (''Namespace '' @ k' @
           '' is not allowed to have a default bucket as well as allow dynamic buckets.''))"
      by blast
    then show ?thesis
      by (intro exI [of _ k'] exI [of _ ns']) (simp add: x n')
  qed
qed

lemma keeps_entries_set: "keeps_entries r \<Longrightarrow> set (r xs) = set xs"
  by (metis keeps_entries_def mset_eq_setD)

text \<open>
  C4: when some namespace of a configuration has both a default bucket and a dynamic
  bucket template, whatever their fields, \<open>ApplyDefaults\<close> panics with the message
  that names such a namespace, and returns no configuration.
\<close>

theorem ApplyDefaults_rejects_default_and_template:
  assumes "keeps_entries rn"
    and "(k, ns) \<in> set (Namespaces s)"
    and "DefaultBucket ns \<noteq> None" and "DynamicBucketTemplate ns \<noteq> None"
  shows "\<exists>k' ns'. (k', ns') \<in> set (Namespaces s) \<and> DefaultBucket ns' \<noteq> None \<and>
     DynamicBucketTemplate ns' \<noteq> None \<and>
     ServiceConfig_ApplyDefaults rn rb s =
       Inl (Panic (''Namespace '' @ k' @
         '' is not allowed to have a default bucket as well as allow dynamic buckets.''))"
proof -
  let ?s = "s\<lparr>GlobalDefaultBucket := map_option
                 (\<lambda>b. (BucketConfig_ApplyDefaults b)\<lparr>Name := DefaultBucketName\<rparr>)
                 (GlobalDefaultBucket s)\<rparr>"
  have "(k, ns) \<in> set (rn (Namespaces ?s))"
    using assms(1,2) by (simp add: keeps_entries_set)
  from ApplyDefaults_namespaces_conflict [OF this assms(3,4), of rb "Namespaces ?s"]
  obtain k' ns' where "(k', ns') \<in> set (rn (Namespaces ?s))" "DefaultBucket ns' \<noteq> None"
      "DynamicBucketTemplate ns' \<noteq> None"
      "ApplyDefaults_namespaces rb (rn (Namespaces ?s)) (Namespaces ?s) =
         Inl (Panic (''Namespace '' @ k' @
           '' is not allowed to have a default bucket as well as allow dynamic buckets.''))"
    by blast
  then show ?thesis
    using assms(1)
    by (intro exI [of _ k'] exI [of _ ns'])
       (simp add: ServiceConfig_ApplyDefaults_def Let_def keeps_entries_set)
qed

theorem ApplyDefaults_rejects_default_and_template_witness:
  "keeps_entries (\<lambda>m::(string \<times> NamespaceConfig) list. m) \<and>
   ServiceConfig_ApplyDefaults (\<lambda>m. m) (\<lambda>m. m) conflicting_config =
     Inl (Panic ''Namespace b is not allowed to have a default bucket as well as allow dynamic buckets.'')"
  using ApplyDefaults_rejects_default_and_template [of "\<lambda>m. m" "''b''"
      "\<lparr>DefaultBucket = Some zero_bucket, DynamicBucketTemplate = Some negative_bucket,
        MaxDynamicBuckets = 3, Buckets = [(''x'', zero_bucket)], NsName = []\<rparr>"
      conflicting_config "\<lambda>m. m"]
  by (simp add: keeps_entries_def conflicting_config_def ServiceConfig_ApplyDefaults_def
      ApplyDefaults_namespace_def ApplyDefaults_buckets_def Let_def)

section \<open>Round trip through the protobuf form\<close>








lemma ToProto_namespace_update [simp]:
  "BucketConfig_ToProto (b\<lparr>namespace := nsc\<rparr>) = BucketConfig_ToProto b"
  by (simp add: BucketConfig_ToProto_def)

lemma pb_name_ToProto [simp]: "pb_name (BucketConfig_ToProto b) = Name b"
  by (simp add: BucketConfig_ToProto_def)


























text \<open>A value fits the wire exactly when it is in the range of \<open>int32\<close>.\<close>

lemma fits_int32_range:
  "fits_int32 v \<longleftrightarrow> - (2 ^ 31) \<le> sint v \<and> sint v < 2 ^ 31"
proof
  assume "fits_int32 v"
  then have "sint v = sint (scast (ucast v :: int32) :: 64 word)"
    by (simp add: fits_int32_def)
  also have "\<dots> = sint (ucast v :: int32)"
    by (simp add: sint_up_scast is_up)
  finally have e: "sint v = sint (ucast v :: int32)" .
  have "- (2 ^ 31) \<le> sint (ucast v :: int32)" "sint (ucast v :: int32) < 2 ^ 31"
    using sint_ge [of "ucast v :: int32"] sint_lt [of "ucast v :: int32"] by simp_all
  with e show "- (2 ^ 31) \<le> sint v \<and> sint v < 2 ^ 31" by simp
next
  assume r: "- (2 ^ 31) \<le> sint v \<and> sint v < 2 ^ 31"
  have "sint (scast (ucast v :: int32) :: 64 word) = sint (ucast v :: int32)"
    by (simp add: sint_up_scast is_up)
  also have "\<dots> = signed_take_bit 31 (uint v)"
    by (simp add: sint_uint uint_word_of_int  signed_take_bit_eq_iff_take_bit_eq take_bit_eq_mod unsigned_ucast_eq)
  also have "\<dots> = signed_take_bit 31 (sint v)"
    by (simp add: signed_take_bit_eq_iff_take_bit_eq sint_uint)
  also have "\<dots> = sint v"
    using r by (simp add: signed_take_bit_int_eq_self)
  finally have "scast (ucast v :: int32) = v"
    by (rule signed_word_eqI)
  then show "fits_int32 v"
    by (simp add: fits_int32_def)
qed

text \<open>The fields that survive \<open>FromProto\<close> after \<open>ToProto\<close>.\<close>

lemma bucket_fields_namespace_update [simp]:
  "bucket_fields (b\<lparr>namespace := nsc\<rparr>) = bucket_fields b"
  by (simp add: bucket_fields_def)







lemma Equals_depends_on_range_order:
  "\<not> ServiceConfig_Equals (\<lambda>m. m) (\<lambda>m. m) rev rev shop_defaulted shop_defaulted"
  by (simp add: ServiceConfig_Equals_def ServiceConfig_ToProto_def namespaceMapToProto_def
      shop_defaulted_def NamespaceConfig_ToProto_def)




end
